theory Spec2Isabelle
  imports Main
begin

section \<open>The \<open>evented\<close> decorator of psygnal\<close>

text \<open>
  This theory embeds \<^verbatim>\<open>src/psygnal/_evented_decorator.py\<close>: the function
  \<^verbatim>\<open>evented\<close> and its inner function \<^verbatim>\<open>_decorate\<close>. Python objects are values of
  \<open>pyval\<close>; the class objects live in a store that maps the identity of a class to its
  attribute dictionary; exceptions are values of \<open>py_error\<close>, returned on the left of a
  sum together with the store as the raise left it.
\<close>

subsection \<open>Python values, errors and the store\<close>

text \<open>
  The keyword arguments that \<^verbatim>\<open>_decorate\<close> hands to the constructor of
  \<^verbatim>\<open>SignalGroupDescriptor\<close> (lines 146 to 152). An equality operator is a callable,
  known by its identity only.
\<close>

record sgd_kwargs =
  sgd_equality_operators :: "(string \<rightharpoonup> nat) option"
  sgd_warn_on_no_fields :: bool
  sgd_cache_on_instance :: bool
  sgd_alias_private_fields :: "bool option"
  sgd_signal_suffix :: string

text \<open>
  \<open>PyClass c\<close> is the class object with identity \<open>c\<close>, a class whose metaclass is
  \<^verbatim>\<open>type\<close>: the values for which \<^verbatim>\<open>isinstance(v, type)\<close> holds.
  \<open>PyDescriptor i kw\<close> is the instance of \<^verbatim>\<open>SignalGroupDescriptor\<close> with identity
  \<open>i\<close>, built from the keyword arguments \<open>kw\<close>. \<open>PyInterceptor n\<close> is the
  intercepting \<^verbatim>\<open>__setattr__\<close> that a descriptor bound under the name \<open>n\<close> puts on
  its owner. \<open>PyObject a\<close> is any other object.
\<close>

datatype pyval =
    PyNone
  | PyBool bool
  | PyInt int
  | is_PyStr: PyStr string
  | is_PyClass: PyClass nat
  | PyDescriptor nat sgd_kwargs
  | PyInterceptor string
  | PyObject nat

text \<open>
  \<^verbatim>\<open>TypeError\<close> is the exception of line 144, and with \<^verbatim>\<open>AttributeError\<close> one of
  the two that \<^verbatim>\<open>setattr\<close> raises. \<^verbatim>\<open>ConfigurationError\<close> is the name the
  specification gives to the failures of the descriptor.
\<close>

datatype py_error =
    is_TypeError: TypeError string
  | is_AttributeError: AttributeError string
  | is_ConfigurationError: ConfigurationError string

type_synonym class_store = "nat \<Rightarrow> string \<rightharpoonup> pyval"

text \<open>
  The state: the dictionaries of the classes, which classes are immutable (the built-in
  types, such as \<^verbatim>\<open>int\<close>; no operation changes that), and the identity of the next
  object to be made.
\<close>

record pystate =
  classes :: class_store
  immutable :: "nat \<Rightarrow> bool"
  next_id :: nat

text \<open>
  \<^verbatim>\<open>setattr(cls, name, value)\<close> on a class is \<^verbatim>\<open>type.__setattr__\<close>. It refuses
  every attribute of an immutable type. On the other classes it refuses the attributes
  that \<^verbatim>\<open>type\<close> itself guards: a name and a qualified name that are not strings,
  \<^verbatim>\<open>__bases__\<close> that is not a tuple (no value of the model is one),
  \<^verbatim>\<open>__class__\<close> of a class whose metaclass is \<^verbatim>\<open>type\<close>, and the read-only ones.
  The message texts abbreviate the interpreter's, which also name the class and the
  type of the value.
\<close>

definition readonly_type_attributes :: "string list" where
  "readonly_type_attributes =
     [''__mro__'', ''__dict__'', ''__base__'', ''__text_signature__'', ''__basicsize__'',
      ''__itemsize__'', ''__flags__'', ''__weakrefoffset__'', ''__dictoffset__'']"

definition setattr_error :: "bool \<Rightarrow> string \<Rightarrow> pyval \<Rightarrow> py_error option" where
  "setattr_error immutable_type name v =
     (if immutable_type
      then Some (TypeError (''cannot set '' @ name @ '' attribute of immutable type''))
      else if (name = ''__name__'' \<or> name = ''__qualname__'') \<and> \<not> is_PyStr v
      then Some (TypeError (''can only assign string to '' @ name))
      else if name = ''__bases__''
      then Some (TypeError ''can only assign tuple to __bases__'')
      else if name = ''__class__''
      then Some (TypeError
                  (if is_PyClass v
                   then ''__class__ assignment only supported for mutable types or ModuleType subclasses''
                   else ''__class__ must be set to a class''))
      else if name \<in> set readonly_type_attributes
      then Some (AttributeError (''attribute '' @ name @ '' is not writable''))
      else None)"

definition setattr ::
  "(nat \<Rightarrow> bool) \<Rightarrow> class_store \<Rightarrow> nat \<Rightarrow> string \<Rightarrow> pyval \<Rightarrow> py_error + class_store" where
  "setattr imm cs c name v =
     (case setattr_error (imm c) name v of
        Some e \<Rightarrow> Inl e
      | None \<Rightarrow> Inr (cs(c := (cs c)(name \<mapsto> v))))"

subsection \<open>The descriptor class, which the decorator configures\<close>

text \<open>
  The class \<^verbatim>\<open>SignalGroupDescriptor\<close> is imported from
  \<^verbatim>\<open>psygnal/_group_descriptor.py\<close>, which is not part of the sources at hand. The
  decorator uses two of its methods, and both are parameters of the model: \<open>sgd_init\<close>
  is the body of \<^verbatim>\<open>__init__\<close>, which accepts the keyword arguments or raises, and
  \<open>sgd_set_name\<close> is \<^verbatim>\<open>__set_name__(owner, name)\<close>, which may rewrite the class
  store, knowing which classes are immutable, and may raise. The theorems that have a
  variable for the two hold for every choice of them.
\<close>

record collab =
  sgd_init :: "sgd_kwargs \<Rightarrow> py_error option"
  sgd_set_name ::
    "(nat \<Rightarrow> bool) \<Rightarrow> pyval \<Rightarrow> nat \<Rightarrow> string \<Rightarrow> class_store \<Rightarrow> py_error option \<times> class_store"

text \<open>
  The call \<^verbatim>\<open>SignalGroupDescriptor(...)\<close>: Python allocates a new object, whose
  identity no earlier object has, and runs \<^verbatim>\<open>__init__\<close> on it.
\<close>

definition SignalGroupDescriptor ::
  "collab \<Rightarrow> sgd_kwargs \<Rightarrow> pystate \<Rightarrow> (py_error + pyval) \<times> pystate" where
  "SignalGroupDescriptor C kw s =
     (case sgd_init C kw of
        Some e \<Rightarrow> (Inl e, s)
      | None \<Rightarrow> (Inr (PyDescriptor (next_id s) kw), s\<lparr>next_id := Suc (next_id s)\<rparr>))"

subsection \<open>The decorator\<close>

text \<open>
  The keyword arguments of one call of \<^verbatim>\<open>evented\<close>: \<open>None\<close> is a keyword the caller
  did not write.
\<close>

record evented_call =
  kw_events_namespace :: "string option"
  kw_equality_operators :: "(string \<rightharpoonup> nat) option option"
  kw_warn_on_no_fields :: "bool option"
  kw_cache_on_instance :: "bool option"
  kw_alias_private_fields :: "bool option option"
  kw_signal_suffix :: "string option"

text \<open>The parameters of \<^verbatim>\<open>evented\<close> once bound (lines 55 to 64).\<close>

record evented_params =
  events_namespace :: string
  equality_operators :: "(string \<rightharpoonup> nat) option"
  warn_on_no_fields :: bool
  cache_on_instance :: bool
  alias_private_fields :: "bool option"
  signal_suffix :: string

definition bind_params :: "evented_call \<Rightarrow> evented_params" where
  "bind_params kw =
     \<lparr>events_namespace = (case kw_events_namespace kw of None \<Rightarrow> ''events'' | Some n \<Rightarrow> n),
      equality_operators = (case kw_equality_operators kw of None \<Rightarrow> None | Some e \<Rightarrow> e),
      warn_on_no_fields = (case kw_warn_on_no_fields kw of None \<Rightarrow> True | Some b \<Rightarrow> b),
      cache_on_instance = (case kw_cache_on_instance kw of None \<Rightarrow> True | Some b \<Rightarrow> b),
      alias_private_fields = (case kw_alias_private_fields kw of None \<Rightarrow> None | Some a \<Rightarrow> a),
      signal_suffix = (case kw_signal_suffix kw of None \<Rightarrow> [] | Some x \<Rightarrow> x)\<rparr>"

text \<open>The keyword arguments of the constructor call in lines 146 to 152.\<close>

definition descriptor_kwargs :: "evented_params \<Rightarrow> sgd_kwargs" where
  "descriptor_kwargs p =
     \<lparr>sgd_equality_operators = equality_operators p,
      sgd_warn_on_no_fields = warn_on_no_fields p,
      sgd_cache_on_instance = cache_on_instance p,
      sgd_alias_private_fields = alias_private_fields p,
      sgd_signal_suffix = signal_suffix p\<rparr>"

text \<open>
  \<^verbatim>\<open>_decorate\<close>, lines 142 to 156, a closure over the bound parameters. An exception
  of the constructor, of \<^verbatim>\<open>__set_name__\<close> or of \<^verbatim>\<open>setattr\<close> leaves the function
  at once, with the store as it is at that moment.
\<close>

definition decorate ::
  "collab \<Rightarrow> evented_params \<Rightarrow> pyval \<Rightarrow> pystate \<Rightarrow> (py_error + pyval) \<times> pystate" where
  "decorate C p cls s =
     (case cls of
        PyClass c \<Rightarrow>
          (case SignalGroupDescriptor C (descriptor_kwargs p) s of
             (Inl e, s1) \<Rightarrow> (Inl e, s1)
           | (Inr descriptor, s1) \<Rightarrow>
               (case sgd_set_name C (immutable s1) descriptor c (events_namespace p)
                       (classes s1) of
                  (Some e, cs2) \<Rightarrow> (Inl e, s1\<lparr>classes := cs2\<rparr>)
                | (None, cs2) \<Rightarrow>
                    (case setattr (immutable s1) cs2 c (events_namespace p) descriptor of
                       Inl e \<Rightarrow> (Inl e, s1\<lparr>classes := cs2\<rparr>)
                     | Inr cs3 \<Rightarrow> (Inr cls, s1\<lparr>classes := cs3\<rparr>))))
      | _ \<Rightarrow> (Inl (TypeError ''evented can only be used on classes''), s))"

text \<open>
  What \<^verbatim>\<open>evented\<close> returns: the decorated class, or the function \<^verbatim>\<open>_decorate\<close>
  itself.
\<close>

datatype evented_result =
    Decorated pyval
  | Decorator "pyval \<Rightarrow> pystate \<Rightarrow> (py_error + pyval) \<times> pystate"

text \<open>\<^verbatim>\<open>evented\<close>, line 158. An omitted \<^verbatim>\<open>cls\<close> is \<^verbatim>\<open>None\<close>.\<close>

definition evented ::
  "collab \<Rightarrow> pyval \<Rightarrow> evented_call \<Rightarrow> pystate \<Rightarrow> (py_error + evented_result) \<times> pystate" where
  "evented C cls kw s =
     (if cls \<noteq> PyNone
      then (case decorate C (bind_params kw) cls s of (r, s') \<Rightarrow> (map_sum id Decorated r, s'))
      else (Inr (Decorator (decorate C (bind_params kw))), s))"

subsection \<open>A descriptor to run the decorator with\<close>

text \<open>
  Modelled from the spec: when a record type counts as configured is decided in the
  missing \<^verbatim>\<open>psygnal/_group_descriptor.py\<close>. Section 2 of the specification has the
  bootstrap replace plain field storage with intercepted storage: a class is configured
  when its \<^verbatim>\<open>__setattr__\<close> is the interceptor.
\<close>

definition is_configured :: "class_store \<Rightarrow> nat \<Rightarrow> bool" where
  "is_configured cs c =
     (case cs c ''__setattr__'' of Some (PyInterceptor n) \<Rightarrow> True | _ \<Rightarrow> False)"

text \<open>
  Modelled from the spec: \<^verbatim>\<open>SignalGroupDescriptor.__init__\<close> and
  \<^verbatim>\<open>SignalGroupDescriptor.__set_name__\<close> are defined in
  \<^verbatim>\<open>psygnal/_group_descriptor.py\<close>, which is missing from the sources. Section 2 of
  the specification has the bootstrap replace plain field storage with intercepted
  storage and attach the accessor of the notification group. The accessor is attached
  by the \<^verbatim>\<open>setattr\<close> of \<^verbatim>\<open>_decorate\<close>; what is left to \<^verbatim>\<open>__set_name__\<close> is
  the interception. On an owner that is configured already it fails with
  \<^verbatim>\<open>ConfigurationError\<close> and writes nothing (double installation, sections 7 and 8;
  field storage is never wrapped twice, section 4.3, item 3). Its own write to the
  owner is a \<^verbatim>\<open>setattr\<close>, and fails as one. The constructor accepts every
  combination of the options. Neither method rejects a class for its fields: a class
  without fields gets a warning, not an error (section 8 of the specification; lines 93
  to 95 of the docstring).
\<close>

definition descriptor_init :: "sgd_kwargs \<Rightarrow> py_error option" where
  "descriptor_init kw = None"

definition descriptor_set_name ::
  "(nat \<Rightarrow> bool) \<Rightarrow> pyval \<Rightarrow> nat \<Rightarrow> string \<Rightarrow> class_store \<Rightarrow> py_error option \<times> class_store" where
  "descriptor_set_name imm descriptor owner name cs =
     (if is_configured cs owner
      then (Some (ConfigurationError ''class is already evented''), cs)
      else (case setattr imm cs owner ''__setattr__'' (PyInterceptor name) of
              Inl e \<Rightarrow> (Some e, cs)
            | Inr cs' \<Rightarrow> (None, cs')))"

definition psygnal :: collab where
  "psygnal = \<lparr>sgd_init = descriptor_init, sgd_set_name = descriptor_set_name\<rparr>"

text \<open>
  Modelled from the spec: the naming policy of the notification group is part of the
  missing \<^verbatim>\<open>psygnal/_group_descriptor.py\<close>. Section 4.1 of the specification and the
  docstring of \<^verbatim>\<open>evented\<close> (lines 103 to 115) describe it: a private field, whose
  name begins with the marker \<^verbatim>\<open>_\<close>, loses the marker when the switch is
  \<^verbatim>\<open>True\<close>, gets no signal when it is \<^verbatim>\<open>False\<close>, and keeps its name when it is
  \<^verbatim>\<open>None\<close>; then the suffix is appended.
\<close>

definition public_name :: "bool option \<Rightarrow> string \<Rightarrow> string \<Rightarrow> string option" where
  "public_name alias suffix field =
     (case field of
        c # rest \<Rightarrow>
          (if c = CHR ''_''
           then (case alias of
                   Some True \<Rightarrow> Some (rest @ suffix)
                 | Some False \<Rightarrow> None
                 | None \<Rightarrow> Some (field @ suffix))
           else Some (field @ suffix))
      | [] \<Rightarrow> Some (field @ suffix))"

text \<open>
  Modelled from the spec: how a record type is recognised is decided in code that is
  missing from the sources. A dataclass, the record type of the docstring's example,
  is a class that carries \<^verbatim>\<open>__dataclass_fields__\<close>.
\<close>

definition is_record_type :: "class_store \<Rightarrow> nat \<Rightarrow> bool" where
  "is_record_type cs c = (cs c ''__dataclass_fields__'' \<noteq> None)"

text \<open>
  A store for the examples: class 0 is the dataclass \<^verbatim>\<open>Person\<close> of the docstring,
  class 1 is a class with an empty body, and class 2 is an immutable built-in type,
  such as \<^verbatim>\<open>int\<close>, whose own attributes are left out.
\<close>

definition start :: pystate where
  "start = \<lparr>classes = (\<lambda>c. if c = 0 then [''__dataclass_fields__'' \<mapsto> PyObject 0] else Map.empty),
            immutable = (\<lambda>c. c = 2),
            next_id = 1\<rparr>"

text \<open>A call of \<^verbatim>\<open>evented\<close> that writes no keyword.\<close>

definition no_kwargs :: evented_call where
  "no_kwargs = \<lparr>kw_events_namespace = None, kw_equality_operators = None,
                kw_warn_on_no_fields = None, kw_cache_on_instance = None,
                kw_alias_private_fields = None, kw_signal_suffix = None\<rparr>"

text \<open>A call that writes every keyword but \<^verbatim>\<open>equality_operators\<close>, none with its default.\<close>

definition signals_kwargs :: evented_call where
  "signals_kwargs = \<lparr>kw_events_namespace = Some ''signals'', kw_equality_operators = None,
                     kw_warn_on_no_fields = Some False, kw_cache_on_instance = Some False,
                     kw_alias_private_fields = Some (Some True),
                     kw_signal_suffix = Some ''_changed''\<rparr>"

section \<open>Properties\<close>

subsection \<open>Shared lemmas\<close>

lemma setattr_accepted:
  "setattr_error (imm c) name v = None \<Longrightarrow> setattr imm cs c name v = Inr (cs(c := (cs c)(name \<mapsto> v)))"
  by (simp add: setattr_def)

lemma setattr_Inr:
  "setattr imm cs c name v = Inr cs' \<Longrightarrow>
   setattr_error (imm c) name v = None \<and> cs' = cs(c := (cs c)(name \<mapsto> v))"
  by (auto simp: setattr_def split: option.splits)

lemma setattr_events: "setattr_error False ''events'' (PyDescriptor i kw) = None"
  by (simp add: setattr_error_def readonly_type_attributes_def)

lemma decorate_non_class:
  "\<not> is_PyClass cls \<Longrightarrow>
   decorate C p cls s = (Inl (TypeError ''evented can only be used on classes''), s)"
  by (cases cls) (simp_all add: decorate_def)

lemma decorate_class_ok:
  assumes "sgd_init C (descriptor_kwargs p) = None"
    and "sgd_set_name C (immutable s) (PyDescriptor (next_id s) (descriptor_kwargs p)) c
           (events_namespace p) (classes s) = (None, cs2)"
    and "setattr_error (immutable s c) (events_namespace p)
           (PyDescriptor (next_id s) (descriptor_kwargs p)) = None"
  shows "decorate C p (PyClass c) s =
           (Inr (PyClass c),
            s\<lparr>classes := cs2(c := (cs2 c)(events_namespace p \<mapsto>
                               PyDescriptor (next_id s) (descriptor_kwargs p))),
              next_id := Suc (next_id s)\<rparr>)"
  using assms by (simp add: decorate_def SignalGroupDescriptor_def setattr_def)

lemma decorate_class_returns:
  assumes "decorate C p (PyClass c) s = (Inr v, s')"
  shows "v = PyClass c
         \<and> sgd_init C (descriptor_kwargs p) = None
         \<and> fst (sgd_set_name C (immutable s) (PyDescriptor (next_id s) (descriptor_kwargs p)) c
                  (events_namespace p) (classes s)) = None
         \<and> setattr_error (immutable s c) (events_namespace p)
             (PyDescriptor (next_id s) (descriptor_kwargs p)) = None
         \<and> classes s' c (events_namespace p) =
             Some (PyDescriptor (next_id s) (descriptor_kwargs p))
         \<and> next_id s' = Suc (next_id s)"
  using assms
  by (auto simp: decorate_def SignalGroupDescriptor_def setattr_def
           split: option.splits prod.splits sum.splits)


lemma evented_class_returns:
  assumes "evented C (PyClass c) kw s = (Inr r, s')"
  shows "r = Decorated (PyClass c)
         \<and> classes s' c (events_namespace (bind_params kw)) =
             Some (PyDescriptor (next_id s) (descriptor_kwargs (bind_params kw)))
         \<and> next_id s' = Suc (next_id s)"
proof -
  obtain v where d: "decorate C (bind_params kw) (PyClass c) s = (Inr v, s')"
    and r: "r = Decorated v"
    using assms
    by (cases "decorate C (bind_params kw) (PyClass c) s";
        cases "fst (decorate C (bind_params kw) (PyClass c) s)")
       (auto simp: evented_def)
  from decorate_class_returns [OF d] r show ?thesis
    by simp
qed

lemma evented_cong:
  "bind_params kw = bind_params kw' \<Longrightarrow> evented C cls kw s = evented C cls kw' s"
  by (simp add: evented_def)

text \<open>The run of the docstring's example: \<^verbatim>\<open>evented\<close> on the dataclass, no keyword written.\<close>

lemma person_set_name:
  "sgd_set_name psygnal (immutable start) d 0 name (classes start) =
     (None, (classes start)(0 := (classes start 0)(''__setattr__'' \<mapsto> PyInterceptor name)))"
  by (simp add: psygnal_def descriptor_set_name_def is_configured_def setattr_def
        setattr_error_def readonly_type_attributes_def start_def)

lemma person_init: "sgd_init psygnal dk = None"
  by (simp add: psygnal_def descriptor_init_def)

lemma person_namespace: "events_namespace (bind_params no_kwargs) = ''events''"
  by (simp add: bind_params_def no_kwargs_def)

lemma person_next_id: "next_id start = 1"
  by (simp add: start_def)

lemma person_mutable: "\<not> immutable start 0"
  by (simp add: start_def)

lemma person_decorate:
  "decorate psygnal (bind_params no_kwargs) (PyClass 0) start =
     (Inr (PyClass 0),
      start\<lparr>classes :=
               ((classes start)(0 := (classes start 0)(''__setattr__'' \<mapsto> PyInterceptor ''events'')))
                 (0 := (((classes start)(0 := (classes start 0)(''__setattr__'' \<mapsto>
                           PyInterceptor ''events''))) 0)
                        (''events'' \<mapsto> PyDescriptor 1 (descriptor_kwargs (bind_params no_kwargs)))),
            next_id := Suc 1\<rparr>)"
proof -
  have n: "sgd_set_name psygnal (immutable start)
             (PyDescriptor (next_id start) (descriptor_kwargs (bind_params no_kwargs))) 0
             (events_namespace (bind_params no_kwargs)) (classes start) =
           (None, (classes start)(0 := (classes start 0)(''__setattr__'' \<mapsto> PyInterceptor ''events'')))"
    by (simp add: person_next_id person_namespace person_set_name)
  have a: "setattr_error (immutable start 0) (events_namespace (bind_params no_kwargs))
             (PyDescriptor (next_id start) (descriptor_kwargs (bind_params no_kwargs))) = None"
    by (simp add: person_namespace person_mutable setattr_events)
  from decorate_class_ok [OF person_init n a] show ?thesis
    by (simp add: person_next_id person_namespace)
qed

lemma person_returns:
  "fst (evented psygnal (PyClass 0) no_kwargs start) = Inr (Decorated (PyClass 0))"
  by (simp add: evented_def person_decorate)

lemma person_decorated:
  "evented psygnal (PyClass 0) no_kwargs start =
     (Inr (Decorated (PyClass 0)), snd (evented psygnal (PyClass 0) no_kwargs start))"
  by (simp add: evented_def person_decorate)

lemma person_events:
  "classes (snd (evented psygnal (PyClass 0) no_kwargs start)) 0 ''events'' =
     Some (PyDescriptor 1 (descriptor_kwargs (bind_params no_kwargs)))"
  by (simp add: evented_def person_decorate)


subsection \<open>Arguments that are not classes\<close>

text \<open>
  C1 (as stated, refuted): the claim has every input that is not a record type fail
  with \<^verbatim>\<open>ConfigurationError\<close>. The integer 3 fails with \<^verbatim>\<open>TypeError\<close>, which is
  not a \<^verbatim>\<open>ConfigurationError\<close>; and class 1, which has no fields and is no record
  type, passes the check of line 143 and is returned decorated.
\<close>

theorem evented_not_record_counterexample:
  "evented psygnal (PyInt 3) no_kwargs start =
     (Inl (TypeError ''evented can only be used on classes''), start)
   \<and> \<not> is_ConfigurationError (TypeError ''evented can only be used on classes'')
   \<and> \<not> is_record_type (classes start) 1
   \<and> fst (evented psygnal (PyClass 1) no_kwargs start) = Inr (Decorated (PyClass 1))"
  by (simp add: evented_def decorate_def SignalGroupDescriptor_def psygnal_def
        descriptor_init_def descriptor_set_name_def is_configured_def is_record_type_def
        setattr_def setattr_error_def readonly_type_attributes_def start_def
        bind_params_def no_kwargs_def)

text \<open>
  C1 (amended): every argument other than \<^verbatim>\<open>None\<close> that is not a class makes
  \<^verbatim>\<open>evented\<close> fail with the \<^verbatim>\<open>TypeError\<close> of line 144, at once: no descriptor is
  built and the store is as it was.
\<close>

theorem evented_rejects_non_class:
  assumes "cls \<noteq> PyNone" and "\<not> is_PyClass cls"
  shows "evented C cls kw s =
           (Inl (TypeError ''evented can only be used on classes''), s)"
  using assms by (simp add: evented_def decorate_non_class)

theorem evented_rejects_non_class_witness:
  "PyStr ''Person'' \<noteq> PyNone \<and> \<not> is_PyClass (PyStr ''Person'')
   \<and> evented psygnal (PyStr ''Person'') no_kwargs start =
       (Inl (TypeError ''evented can only be used on classes''), start)"
  using evented_rejects_non_class [of "PyStr ''Person''" psygnal no_kwargs start]
  by simp

subsection \<open>Applying the decorator to a class\<close>

text \<open>
  C3 (as stated, refuted): the claim has \<^verbatim>\<open>evented\<close> return the class for every
  class argument. On the dataclass 0 with \<^verbatim>\<open>events_namespace="__name__"\<close> the
  \<^verbatim>\<open>setattr\<close> of line 155 raises \<^verbatim>\<open>TypeError\<close>, since the descriptor is no string;
  and on class 2, an immutable built-in type, no attribute can be set, so the call
  raises \<^verbatim>\<open>TypeError\<close> as well. Neither call returns the class.
\<close>

theorem evented_class_raises_counterexample:
  "fst (evented psygnal (PyClass 0) (no_kwargs\<lparr>kw_events_namespace := Some ''__name__''\<rparr>) start) =
     Inl (TypeError ''can only assign string to __name__'')
   \<and> immutable start 2
   \<and> fst (evented psygnal (PyClass 2) no_kwargs start) =
       Inl (TypeError ''cannot set __setattr__ attribute of immutable type'')"
  by (simp add: evented_def decorate_def SignalGroupDescriptor_def psygnal_def
        descriptor_init_def descriptor_set_name_def is_configured_def
        setattr_def setattr_error_def readonly_type_attributes_def start_def
        bind_params_def no_kwargs_def)

text \<open>
  C3 (amended): let \<open>n\<close> be the configured namespace, the value of the keyword
  \<^verbatim>\<open>events_namespace\<close>, or \<^verbatim>\<open>events\<close> when the keyword is not written. For every
  class argument on which the constructor and \<^verbatim>\<open>__set_name__\<close> of the descriptor
  return normally, and for which the \<^verbatim>\<open>setattr\<close> of line 155 is accepted (the class is
  not immutable and \<open>n\<close> is not an attribute that \<^verbatim>\<open>type\<close> guards), \<^verbatim>\<open>evented\<close>
  returns the class object it was given, and the attribute \<open>n\<close> of that class is then
  bound to the descriptor built in this call; the class is written once, by that
  \<^verbatim>\<open>setattr\<close>, on the store that \<^verbatim>\<open>__set_name__\<close> returned.
\<close>

theorem evented_returns_same_class:
  assumes "n = (case kw_events_namespace kw of None \<Rightarrow> ''events'' | Some x \<Rightarrow> x)"
    and "sgd_init C (descriptor_kwargs (bind_params kw)) = None"
    and "sgd_set_name C (immutable s)
           (PyDescriptor (next_id s) (descriptor_kwargs (bind_params kw))) c n (classes s) =
         (None, cs2)"
    and "setattr_error (immutable s c) n
           (PyDescriptor (next_id s) (descriptor_kwargs (bind_params kw))) = None"
  shows "evented C (PyClass c) kw s =
           (Inr (Decorated (PyClass c)),
            s\<lparr>classes := cs2(c := (cs2 c)(n \<mapsto>
                               PyDescriptor (next_id s) (descriptor_kwargs (bind_params kw)))),
              next_id := Suc (next_id s)\<rparr>)
         \<and> classes (snd (evented C (PyClass c) kw s)) c n =
             Some (PyDescriptor (next_id s) (descriptor_kwargs (bind_params kw)))"
proof -
  have ns: "events_namespace (bind_params kw) = n"
    using assms(1) by (simp add: bind_params_def)
  have "decorate C (bind_params kw) (PyClass c) s =
          (Inr (PyClass c),
           s\<lparr>classes := cs2(c := (cs2 c)(n \<mapsto>
                              PyDescriptor (next_id s) (descriptor_kwargs (bind_params kw)))),
             next_id := Suc (next_id s)\<rparr>)"
    using decorate_class_ok [of C "bind_params kw" s c cs2] assms(2) assms(3) assms(4)
    by (simp add: ns)
  then show ?thesis
    by (simp add: evented_def)
qed

theorem evented_returns_same_class_witness:
  "''signals'' = (case kw_events_namespace signals_kwargs of None \<Rightarrow> ''events'' | Some x \<Rightarrow> x)
   \<and> sgd_init psygnal (descriptor_kwargs (bind_params signals_kwargs)) = None
   \<and> fst (sgd_set_name psygnal (immutable start)
            (PyDescriptor 1 (descriptor_kwargs (bind_params signals_kwargs))) 0 ''signals''
            (classes start)) = None
   \<and> setattr_error (immutable start 0) ''signals''
        (PyDescriptor 1 (descriptor_kwargs (bind_params signals_kwargs))) = None
   \<and> fst (evented psygnal (PyClass 0) signals_kwargs start) = Inr (Decorated (PyClass 0))
   \<and> classes (snd (evented psygnal (PyClass 0) signals_kwargs start)) 0 ''signals'' =
       Some (PyDescriptor 1
              \<lparr>sgd_equality_operators = None, sgd_warn_on_no_fields = False,
               sgd_cache_on_instance = False, sgd_alias_private_fields = Some True,
               sgd_signal_suffix = ''_changed''\<rparr>)
   \<and> classes (snd (evented psygnal (PyClass 0) signals_kwargs start)) 0 ''events'' = None
   \<and> classes (snd (evented psygnal (PyClass 0) signals_kwargs start)) 0
        ''__dataclass_fields__'' = Some (PyObject 0)"
proof -
  let ?d = "PyDescriptor (next_id start) (descriptor_kwargs (bind_params signals_kwargs))"
  have h: "''signals'' =
             (case kw_events_namespace signals_kwargs of None \<Rightarrow> ''events'' | Some x \<Rightarrow> x)"
    by (simp add: signals_kwargs_def)
  have n: "sgd_set_name psygnal (immutable start) ?d 0 ''signals'' (classes start) =
             (None, (classes start)(0 := (classes start 0)(''__setattr__'' \<mapsto>
                                            PyInterceptor ''signals'')))"
    by (rule person_set_name)
  have a: "setattr_error (immutable start 0) ''signals'' ?d = None"
    by (simp add: person_mutable setattr_error_def readonly_type_attributes_def)
  have k: "descriptor_kwargs (bind_params signals_kwargs) =
             \<lparr>sgd_equality_operators = None, sgd_warn_on_no_fields = False,
              sgd_cache_on_instance = False, sgd_alias_private_fields = Some True,
              sgd_signal_suffix = ''_changed''\<rparr>"
    by (simp add: descriptor_kwargs_def bind_params_def signals_kwargs_def)
  have f: "classes start 0 ''__dataclass_fields__'' = Some (PyObject 0)"
    and g: "classes start 0 ''events'' = None"
    by (simp_all add: start_def)
  from evented_returns_same_class [OF h person_init n a] n a f g show ?thesis
    by (simp add: h [symmetric] person_init person_next_id k)
qed

subsection \<open>Applying the decorator twice\<close>



subsection \<open>The defaults of the options\<close>

text \<open>
  C4: when the keyword \<^verbatim>\<open>events_namespace\<close> is not written, the notification group
  is exposed under the name \<^verbatim>\<open>events\<close>: the descriptor is told that name by
  \<^verbatim>\<open>__set_name__\<close> and is bound to the class attribute \<^verbatim>\<open>events\<close>, on every
  class that is not immutable.
\<close>

theorem evented_default_namespace:
  assumes "kw_events_namespace kw = None"
    and "sgd_init C (descriptor_kwargs (bind_params kw)) = None"
    and "sgd_set_name C (immutable s)
           (PyDescriptor (next_id s) (descriptor_kwargs (bind_params kw))) c
           ''events'' (classes s) = (None, cs2)"
    and "\<not> immutable s c"
  shows "fst (evented C (PyClass c) kw s) = Inr (Decorated (PyClass c))
         \<and> classes (snd (evented C (PyClass c) kw s)) c ''events'' =
             Some (PyDescriptor (next_id s) (descriptor_kwargs (bind_params kw)))
         \<and> evented C cls kw s = evented C cls (kw\<lparr>kw_events_namespace := Some ''events''\<rparr>) s"
proof -
  have ns: "events_namespace (bind_params kw) = ''events''"
    using assms(1) by (simp add: bind_params_def)
  have call: "evented C cls kw s = evented C cls (kw\<lparr>kw_events_namespace := Some ''events''\<rparr>) s"
    using assms(1) by (intro evented_cong) (simp add: bind_params_def)
  have "decorate C (bind_params kw) (PyClass c) s =
          (Inr (PyClass c),
           s\<lparr>classes := cs2(c := (cs2 c)(''events'' \<mapsto>
                              PyDescriptor (next_id s) (descriptor_kwargs (bind_params kw)))),
              next_id := Suc (next_id s)\<rparr>)"
    using decorate_class_ok [of C "bind_params kw" s c cs2] assms(2) assms(3) assms(4)
    by (simp add: ns setattr_events)
  with call show ?thesis
    by (simp add: evented_def)
qed

theorem evented_default_namespace_witness:
  "kw_events_namespace no_kwargs = None
   \<and> sgd_init psygnal (descriptor_kwargs (bind_params no_kwargs)) = None
   \<and> fst (sgd_set_name psygnal (immutable start)
            (PyDescriptor 1 (descriptor_kwargs (bind_params no_kwargs))) 0
            ''events'' (classes start)) = None
   \<and> \<not> immutable start 0
   \<and> fst (evented psygnal (PyClass 0) no_kwargs start) = Inr (Decorated (PyClass 0))
   \<and> classes (snd (evented psygnal (PyClass 0) no_kwargs start)) 0 ''events'' =
       Some (PyDescriptor 1 (descriptor_kwargs (bind_params no_kwargs)))"
proof -
  have h: "kw_events_namespace no_kwargs = None"
    by (simp add: no_kwargs_def)
  have n: "sgd_set_name psygnal (immutable start)
             (PyDescriptor (next_id start) (descriptor_kwargs (bind_params no_kwargs))) 0
             ''events'' (classes start) =
           (None, (classes start)(0 := (classes start 0)(''__setattr__'' \<mapsto>
                                          PyInterceptor ''events'')))"
    by (rule person_set_name)
  from evented_default_namespace [OF h person_init n person_mutable, of PyNone]
    h n person_mutable
  show ?thesis
    by (simp add: person_init person_next_id)
qed

text \<open>
  C5: when the keyword \<^verbatim>\<open>cache_on_instance\<close> is not written, storage on the instance
  is selected: the constructor of the descriptor receives \<^verbatim>\<open>True\<close> for it. The call
  is the call that writes \<^verbatim>\<open>cache_on_instance=True\<close>, and when it returns, the
  descriptor bound to the class is one built with that value.
\<close>

theorem evented_default_cache_on_instance:
  assumes "kw_cache_on_instance kw = None"
  shows "sgd_cache_on_instance (descriptor_kwargs (bind_params kw)) = True
         \<and> evented C cls kw s = evented C cls (kw\<lparr>kw_cache_on_instance := Some True\<rparr>) s
         \<and> (evented C (PyClass c) kw s = (Inr r, s') \<longrightarrow>
              classes s' c (events_namespace (bind_params kw)) =
                Some (PyDescriptor (next_id s)
                       ((descriptor_kwargs (bind_params kw))\<lparr>sgd_cache_on_instance := True\<rparr>)))"
proof -
  have fwd: "sgd_cache_on_instance (descriptor_kwargs (bind_params kw)) = True"
    using assms by (simp add: bind_params_def descriptor_kwargs_def)
  have call: "evented C cls kw s = evented C cls (kw\<lparr>kw_cache_on_instance := Some True\<rparr>) s"
    using assms by (intro evented_cong) (simp add: bind_params_def)
  from fwd call evented_class_returns [of C c kw s r s'] show ?thesis
    by (auto)
qed

theorem evented_default_cache_on_instance_witness:
  "kw_cache_on_instance no_kwargs = None
   \<and> sgd_cache_on_instance (descriptor_kwargs (bind_params no_kwargs)) = True
   \<and> fst (evented psygnal (PyClass 0) no_kwargs start) = Inr (Decorated (PyClass 0))
   \<and> classes (snd (evented psygnal (PyClass 0) no_kwargs start)) 0 ''events'' =
       Some (PyDescriptor 1
              ((descriptor_kwargs (bind_params no_kwargs))\<lparr>sgd_cache_on_instance := True\<rparr>))"
proof -
  have h: "kw_cache_on_instance no_kwargs = None"
    by (simp add: no_kwargs_def)
  from evented_default_cache_on_instance [OF h, of psygnal PyNone start 0 "Decorated (PyClass 0)"
      "snd (evented psygnal (PyClass 0) no_kwargs start)"] h person_decorated
  show ?thesis
    by (simp add: person_returns person_namespace person_next_id)
qed

text \<open>
  C6: when the keyword \<^verbatim>\<open>signal_suffix\<close> is not written, the suffix that the
  constructor of the descriptor receives is the empty string. The call is the call that
  writes \<^verbatim>\<open>signal_suffix=""\<close>, and when it returns, the descriptor bound to the
  class is one built with the empty suffix.
\<close>

theorem evented_default_signal_suffix:
  assumes "kw_signal_suffix kw = None"
  shows "sgd_signal_suffix (descriptor_kwargs (bind_params kw)) = []
         \<and> evented C cls kw s = evented C cls (kw\<lparr>kw_signal_suffix := Some []\<rparr>) s
         \<and> (evented C (PyClass c) kw s = (Inr r, s') \<longrightarrow>
              classes s' c (events_namespace (bind_params kw)) =
                Some (PyDescriptor (next_id s)
                       ((descriptor_kwargs (bind_params kw))\<lparr>sgd_signal_suffix := []\<rparr>)))"
proof -
  have fwd: "sgd_signal_suffix (descriptor_kwargs (bind_params kw)) = []"
    using assms by (simp add: bind_params_def descriptor_kwargs_def)
  have call: "evented C cls kw s = evented C cls (kw\<lparr>kw_signal_suffix := Some []\<rparr>) s"
    using assms by (intro evented_cong) (simp add: bind_params_def)
  from fwd call evented_class_returns [of C c kw s r s'] show ?thesis
    by (auto)
qed

theorem evented_default_signal_suffix_witness:
  "kw_signal_suffix no_kwargs = None
   \<and> sgd_signal_suffix (descriptor_kwargs (bind_params no_kwargs)) = []
   \<and> fst (evented psygnal (PyClass 0) no_kwargs start) = Inr (Decorated (PyClass 0))
   \<and> classes (snd (evented psygnal (PyClass 0) no_kwargs start)) 0 ''events'' =
       Some (PyDescriptor 1
              ((descriptor_kwargs (bind_params no_kwargs))\<lparr>sgd_signal_suffix := []\<rparr>))"
proof -
  have h: "kw_signal_suffix no_kwargs = None"
    by (simp add: no_kwargs_def)
  from evented_default_signal_suffix [OF h, of psygnal PyNone start 0 "Decorated (PyClass 0)"
      "snd (evented psygnal (PyClass 0) no_kwargs start)"] h person_decorated
  show ?thesis
    by (simp add: person_returns person_namespace person_next_id)
qed

text \<open>
  C7: when the keyword \<^verbatim>\<open>alias_private_fields\<close> is not written, the constructor of
  the descriptor receives \<^verbatim>\<open>None\<close> for it, the pass-through setting of the switch,
  under which the naming policy gives every field, private or not, its own name with
  the suffix appended. The call is the call that writes
  \<^verbatim>\<open>alias_private_fields=None\<close>, and when it returns, the descriptor bound to the
  class is one built with that value.
\<close>

theorem evented_default_alias_private_fields:
  assumes "kw_alias_private_fields kw = None"
  shows "sgd_alias_private_fields (descriptor_kwargs (bind_params kw)) = None
         \<and> evented C cls kw s = evented C cls (kw\<lparr>kw_alias_private_fields := Some None\<rparr>) s
         \<and> (evented C (PyClass c) kw s = (Inr r, s') \<longrightarrow>
              classes s' c (events_namespace (bind_params kw)) =
                Some (PyDescriptor (next_id s)
                       ((descriptor_kwargs (bind_params kw))\<lparr>sgd_alias_private_fields := None\<rparr>)))
         \<and> public_name (sgd_alias_private_fields (descriptor_kwargs (bind_params kw))) suffix field =
             Some (field @ suffix)"
proof -
  have fwd: "sgd_alias_private_fields (descriptor_kwargs (bind_params kw)) = None"
    using assms by (simp add: bind_params_def descriptor_kwargs_def)
  have call: "evented C cls kw s = evented C cls (kw\<lparr>kw_alias_private_fields := Some None\<rparr>) s"
    using assms by (intro evented_cong) (simp add: bind_params_def)
  from fwd call evented_class_returns [of C c kw s r s'] show ?thesis
    by (auto simp: public_name_def split: list.split)
qed

theorem evented_default_alias_private_fields_witness:
  "kw_alias_private_fields no_kwargs = None
   \<and> sgd_alias_private_fields (descriptor_kwargs (bind_params no_kwargs)) = None
   \<and> fst (evented psygnal (PyClass 0) no_kwargs start) = Inr (Decorated (PyClass 0))
   \<and> classes (snd (evented psygnal (PyClass 0) no_kwargs start)) 0 ''events'' =
       Some (PyDescriptor 1
              ((descriptor_kwargs (bind_params no_kwargs))\<lparr>sgd_alias_private_fields := None\<rparr>))
   \<and> public_name (sgd_alias_private_fields (descriptor_kwargs (bind_params no_kwargs))) []
        ''_secret'' = Some ''_secret''"
proof -
  have h: "kw_alias_private_fields no_kwargs = None"
    by (simp add: no_kwargs_def)
  from evented_default_alias_private_fields [OF h, of psygnal PyNone start 0 "Decorated (PyClass 0)"
      "snd (evented psygnal (PyClass 0) no_kwargs start)" "[]" "''_secret''"] h person_decorated
  show ?thesis
    by (simp add: person_returns person_namespace person_next_id public_name_def)
qed

text \<open>
  C8: when the keyword \<^verbatim>\<open>warn_on_no_fields\<close> is not written, the warning about a
  class without fields is on: the constructor of the descriptor receives \<^verbatim>\<open>True\<close>
  for it. The call is the call that writes \<^verbatim>\<open>warn_on_no_fields=True\<close>, and when it
  returns, the descriptor bound to the class is one built with that value.
\<close>

theorem evented_default_warn_on_no_fields:
  assumes "kw_warn_on_no_fields kw = None"
  shows "sgd_warn_on_no_fields (descriptor_kwargs (bind_params kw)) = True
         \<and> evented C cls kw s = evented C cls (kw\<lparr>kw_warn_on_no_fields := Some True\<rparr>) s
         \<and> (evented C (PyClass c) kw s = (Inr r, s') \<longrightarrow>
              classes s' c (events_namespace (bind_params kw)) =
                Some (PyDescriptor (next_id s)
                       ((descriptor_kwargs (bind_params kw))\<lparr>sgd_warn_on_no_fields := True\<rparr>)))"
proof -
  have fwd: "sgd_warn_on_no_fields (descriptor_kwargs (bind_params kw)) = True"
    using assms by (simp add: bind_params_def descriptor_kwargs_def)
  have call: "evented C cls kw s = evented C cls (kw\<lparr>kw_warn_on_no_fields := Some True\<rparr>) s"
    using assms by (intro evented_cong) (simp add: bind_params_def)
  from fwd call evented_class_returns [of C c kw s r s'] show ?thesis
    by (auto)
qed

theorem evented_default_warn_on_no_fields_witness:
  "kw_warn_on_no_fields no_kwargs = None
   \<and> sgd_warn_on_no_fields (descriptor_kwargs (bind_params no_kwargs)) = True
   \<and> fst (evented psygnal (PyClass 0) no_kwargs start) = Inr (Decorated (PyClass 0))
   \<and> classes (snd (evented psygnal (PyClass 0) no_kwargs start)) 0 ''events'' =
       Some (PyDescriptor 1
              ((descriptor_kwargs (bind_params no_kwargs))\<lparr>sgd_warn_on_no_fields := True\<rparr>))"
proof -
  have h: "kw_warn_on_no_fields no_kwargs = None"
    by (simp add: no_kwargs_def)
  from evented_default_warn_on_no_fields [OF h, of psygnal PyNone start 0 "Decorated (PyClass 0)"
      "snd (evented psygnal (PyClass 0) no_kwargs start)"] h person_decorated
  show ?thesis
    by (simp add: person_returns person_namespace person_next_id)
qed

subsection \<open>The curried form\<close>

text \<open>
  C9: called with \<^verbatim>\<open>cls=None\<close>, \<^verbatim>\<open>evented\<close> returns a function and changes
  nothing; applied to an argument \<open>cls\<close> other than \<^verbatim>\<open>None\<close>, in whatever state
  \<open>s2\<close> the program is in by then, that function does what \<^verbatim>\<open>evented\<close> called
  on \<open>cls\<close> with the same keywords does there: the same value or exception, and the
  same store.
\<close>

theorem evented_curried:
  assumes "cls \<noteq> PyNone"
  shows "case evented C PyNone kw s of
           (Inr (Decorator f), s1) \<Rightarrow>
             s1 = s
             \<and> evented C cls kw s2 =
                 (map_sum id Decorated (fst (f cls s2)), snd (f cls s2))
         | (Inr (Decorated v), s1) \<Rightarrow> False
         | (Inl e, s1) \<Rightarrow> False"
  using assms by (simp add: evented_def split: prod.split)

theorem evented_curried_witness:
  "PyClass 0 \<noteq> PyNone
   \<and> (case evented psygnal PyNone no_kwargs start of
         (Inr (Decorator f), s1) \<Rightarrow>
           s1 = start
           \<and> fst (f (PyClass 0) start) = Inr (PyClass 0)
           \<and> fst (evented psygnal (PyClass 0) no_kwargs start) = Inr (Decorated (PyClass 0))
           \<and> snd (f (PyClass 0) start) = snd (evented psygnal (PyClass 0) no_kwargs start)
           \<and> classes (snd (f (PyClass 0) start)) 0 ''events'' =
               Some (PyDescriptor 1 (descriptor_kwargs (bind_params no_kwargs)))
       | (Inr (Decorated v), s1) \<Rightarrow> False
       | (Inl e, s1) \<Rightarrow> False)"
proof -
  have h: "PyClass 0 \<noteq> PyNone"
    by simp
  have c: "evented psygnal PyNone no_kwargs start =
             (Inr (Decorator (decorate psygnal (bind_params no_kwargs))), start)"
    by (simp add: evented_def)
  have d: "fst (decorate psygnal (bind_params no_kwargs) (PyClass 0) start) = Inr (PyClass 0)"
    by (simp add: person_decorate)
  have b: "classes (snd (decorate psygnal (bind_params no_kwargs) (PyClass 0) start)) 0 ''events'' =
             Some (PyDescriptor 1 (descriptor_kwargs (bind_params no_kwargs)))"
    by (simp add: person_decorate)
  from evented_curried [OF h, where C = psygnal and kw = no_kwargs and s = start and ?s2.0 = start]
  have "evented psygnal (PyClass 0) no_kwargs start =
          (map_sum id Decorated (fst (decorate psygnal (bind_params no_kwargs) (PyClass 0) start)),
           snd (decorate psygnal (bind_params no_kwargs) (PyClass 0) start))"
    by (simp add: c)
  with d b show ?thesis
    by (simp add: c)
qed

subsection \<open>What the decorator writes\<close>

text \<open>
  C10: of the attributes of all classes, the decorator itself writes one, the attribute
  of the decorated class that \<^verbatim>\<open>events_namespace\<close> names. Every other attribute
  has, after \<^verbatim>\<open>evented\<close>, the value that \<^verbatim>\<open>__set_name__\<close> of the descriptor left
  it with; and the value it had before the call, when the constructor of the descriptor
  raised and \<^verbatim>\<open>__set_name__\<close> was not reached.
\<close>

theorem evented_frame:
  assumes "c' \<noteq> c \<or> a \<noteq> events_namespace (bind_params kw)"
  shows "classes (snd (evented C (PyClass c) kw s)) c' a =
           (if sgd_init C (descriptor_kwargs (bind_params kw)) = None
            then snd (sgd_set_name C (immutable s)
                        (PyDescriptor (next_id s) (descriptor_kwargs (bind_params kw))) c
                        (events_namespace (bind_params kw)) (classes s)) c' a
            else classes s c' a)"
proof (cases "sgd_init C (descriptor_kwargs (bind_params kw))")
  case (Some e)
  then show ?thesis
    by (simp add: evented_def decorate_def SignalGroupDescriptor_def)
next
  case None
  let ?d = "PyDescriptor (next_id s) (descriptor_kwargs (bind_params kw))"
  obtain err cs2 where n:
    "sgd_set_name C (immutable s) ?d c (events_namespace (bind_params kw)) (classes s) = (err, cs2)"
    by (cases "sgd_set_name C (immutable s) ?d c (events_namespace (bind_params kw)) (classes s)")
  show ?thesis
  proof (cases err)
    case (Some e)
    with None n show ?thesis
      by (simp add: evented_def decorate_def SignalGroupDescriptor_def)
  next
    case err_None: None
    show ?thesis
    proof (cases "setattr (immutable s) cs2 c (events_namespace (bind_params kw)) ?d")
      case (Inl e)
      with None n err_None show ?thesis
        by (simp add: evented_def decorate_def SignalGroupDescriptor_def)
    next
      case (Inr cs3)
      from setattr_Inr [OF Inr] assms have "cs3 c' a = cs2 c' a"
        by auto
      with None n err_None Inr show ?thesis
        by (simp add: evented_def decorate_def SignalGroupDescriptor_def)
    qed
  qed
qed

theorem evented_frame_witness:
  "''__dataclass_fields__'' \<noteq> events_namespace (bind_params no_kwargs)
   \<and> classes (snd (evented psygnal (PyClass 0) no_kwargs start)) 0 ''__dataclass_fields__'' =
       classes start 0 ''__dataclass_fields__''
   \<and> classes start 0 ''__dataclass_fields__'' = Some (PyObject 0)
   \<and> classes start 0 ''events'' = None
   \<and> classes (snd (evented psygnal (PyClass 0) no_kwargs start)) 0 ''events'' \<noteq> None"
proof -
  have h: "0 \<noteq> (0::nat) \<or> ''__dataclass_fields__'' \<noteq> events_namespace (bind_params no_kwargs)"
    by (simp add: person_namespace)
  have n: "snd (sgd_set_name psygnal (immutable start)
                  (PyDescriptor (next_id start) (descriptor_kwargs (bind_params no_kwargs))) 0
                  (events_namespace (bind_params no_kwargs)) (classes start))
             0 ''__dataclass_fields__'' = classes start 0 ''__dataclass_fields__''"
    by (simp add: person_set_name)
  have v: "classes start 0 ''__dataclass_fields__'' = Some (PyObject 0)"
    and w: "classes start 0 ''events'' = None"
    by (simp_all add: start_def)
  from evented_frame [OF h, where C = psygnal and s = start] h n v w person_events
  show ?thesis
    by (simp add: person_init person_namespace)
qed

end
